theory Spec2Isabelle
  imports Main "HOL-Library.Finite_Map"
begin

section \<open>JavaScript values and objects\<close>

text \<open>
  The values that flow through \<^verbatim>\<open>index.js\<close>. A number is an integer that a JavaScript
  double holds (the pagination counters are such numbers); an object is a finite map from
  property names to values.
\<close>

datatype jsval =
    Undefined
  | Null
  | Bool bool
  | Num int
  | Str string
  | Arr "jsval list"
  | Obj "(string, jsval) fmap"

type_synonym obj = "(string, jsval) fmap"

text \<open>JavaScript truthiness, as \<^verbatim>\<open>if (v)\<close>, \<^verbatim>\<open>v && ...\<close> and \<^verbatim>\<open>v || ...\<close> test it.\<close>

fun truthy :: "jsval \<Rightarrow> bool" where
  "truthy Undefined = False"
| "truthy Null = False"
| "truthy (Bool b) = b"
| "truthy (Num n) = (n \<noteq> 0)"
| "truthy (Str s) = (s \<noteq> [])"
| "truthy (Arr xs) = True"
| "truthy (Obj m) = True"

subsection \<open>Arithmetic on doubles\<close>

text \<open>
  \<^verbatim>\<open>offset += res.pagination.returned\<close> and \<^verbatim>\<open>res.pagination.total - offset\<close> work on
  doubles: the result is the exact sum or difference rounded to the nearest double, ties
  to the even significand, and it is infinite from \<open>2^1024\<close> on. Every integer of
  magnitude up to \<open>2^53\<close> is a double (\<open>safe\<close>), so a result in that range is exact.

  \<open>ulp m\<close> is the spacing of the doubles around the magnitude \<open>m\<close>: 1 below \<open>2^53\<close>,
  and doubled with every further binary digit, so that \<open>m div ulp m\<close> has at most 53 digits.
\<close>

definition safe :: "int \<Rightarrow> bool" where
  "safe n \<longleftrightarrow> - (2 ^ 53) \<le> n \<and> n \<le> 2 ^ 53"

function ulp :: "nat \<Rightarrow> nat" where
  "ulp m = (if m < 2 ^ 53 then 1 else 2 * ulp (m div 2))"
  by pat_completeness auto
termination
  by (relation "measure id") auto

definition round_double :: "int \<Rightarrow> int" where
  "round_double n =
     (let m = nat \<bar>n\<bar>;
          u = ulp m;
          q = m div u;
          r = m mod u;
          k = (if 2 * r < u \<or> (2 * r = u \<and> even q) then q else q + 1)
      in sgn n * int (k * u))"

text \<open>
  The sum and the difference of two numbers; \<open>None\<close> when the result is infinite, which is
  as far as the model follows the counters.
\<close>

definition js_add :: "int \<Rightarrow> int \<Rightarrow> int option" where
  "js_add a b =
     (let r = round_double (a + b) in if \<bar>r\<bar> < 2 ^ 1024 then Some r else None)"

definition js_sub :: "int \<Rightarrow> int \<Rightarrow> int option" where
  "js_sub a b =
     (let r = round_double (a - b) in if \<bar>r\<bar> < 2 ^ 1024 then Some r else None)"

subsection \<open>Merging objects\<close>

text \<open>
  Modelled from the spec: \<^verbatim>\<open>_.extend(destination, source)\<close> of the underscore library,
  which is a dependency and not part of the repository. It copies every property of
  the source over the destination (section 4.1: caller-supplied options are merged with the
  defaults and may override any default); a source that is \<^verbatim>\<open>undefined\<close> (an omitted
  optional argument, \<open>None\<close> here) has no property to copy.
\<close>

definition extend_obj :: "obj \<Rightarrow> obj option \<Rightarrow> obj" where
  "extend_obj destination source =
     (case source of None \<Rightarrow> destination | Some s \<Rightarrow> fmadd destination s)"

section \<open>Callbacks, responses and observable events\<close>

text \<open>
  A callback parameter holds whatever the caller passed: nothing or another falsy value
  (\<open>Absent\<close>), a truthy value that is not a function (\<open>NotCallable\<close>), or a function.
\<close>

datatype 'f callback = Absent | NotCallable | Function 'f

fun isFunction :: "'f callback \<Rightarrow> bool" where
  "isFunction (Function f) = True"
| "isFunction Absent = False"
| "isFunction NotCallable = False"

fun supplied :: "'f callback \<Rightarrow> bool" where
  "supplied Absent = False"
| "supplied NotCallable = True"
| "supplied (Function f) = True"

text \<open>
  The \<^verbatim>\<open>pagination\<close> object of an enveloped response. The code reads these two fields,
  taken here to hold numbers.
\<close>

record pagination =
  returned :: int
  total :: int

text \<open>
  What a round trip hands back as the response body \<^verbatim>\<open>res\<close>:
  \<^item> \<open>Undef\<close>: \<^verbatim>\<open>undefined\<close> (no body at all);
  \<^item> \<open>Nul\<close>: the JSON value \<^verbatim>\<open>null\<close>;
  \<^item> \<open>Plain v\<close>: any other value \<open>v\<close> whose \<^verbatim>\<open>pagination\<close> property is missing or falsy;
  \<^item> \<open>Envelope d p\<close>: an object with \<^verbatim>\<open>data\<close> \<open>d\<close> and a \<^verbatim>\<open>pagination\<close> object \<open>p\<close>.
\<close>

datatype result = Undef | Nul | Plain jsval | Envelope jsval pagination

text \<open>
  The outcome of one HTTP round trip: a transport failure with its error, or a response
  with its status code and parsed body. A transport answers a request (its options object)
  with an outcome.
\<close>

datatype outcome = Failure jsval | Success nat result

type_synonym transport = "obj \<Rightarrow> outcome"

datatype error = TypeError

text \<open>
  The observable behaviour of a call is the sequence of these events: an HTTP request sent
  with its options, the caller's \<^verbatim>\<open>callback\<close> invoked with \<open>(error, data, pagination)\<close> and
  a continuation, the caller's \<^verbatim>\<open>completed\<close> invoked with its argument list, or an uncaught
  exception. \<open>Overflow\<close> ends a trace where a counter became infinite and was read.
\<close>

datatype event =
    Request obj
  | OnPage jsval jsval pagination
  | OnComplete "(jsval + result) list"
  | Throw error
  | Overflow

text \<open>
  What the caller's page callback does with the continuation it is handed: it never calls
  it, or it calls it (once) with a value.
\<close>

datatype decision = Ignore | Invoke jsval

type_synonym onpage = "jsval \<Rightarrow> pagination \<Rightarrow> decision"

text \<open>Calling a value: a function runs, anything else raises a \<^verbatim>\<open>TypeError\<close>.\<close>

fun invoke :: "'f callback \<Rightarrow> ('f \<Rightarrow> event list) \<Rightarrow> event list" where
  "invoke (Function f) run = run f"
| "invoke Absent run = [Throw TypeError]"
| "invoke NotCallable run = [Throw TypeError]"

section \<open>The client\<close>

record pivotal =
  apiToken :: jsval
  baseUrl :: string

definition Pivotal :: "jsval \<Rightarrow> pivotal" where
  "Pivotal token =
     \<lparr>apiToken = token, baseUrl = ''https://www.pivotaltracker.com/services/v5/''\<rparr>"

text \<open>
  Modelled from the spec: the HTTP client \<^verbatim>\<open>request(opts, cb)\<close>, a dependency that is not
  part of the repository. It sends the request and calls \<^verbatim>\<open>cb(err, response, body)\<close> when
  the round trip ends (section 4.1): on a transport failure with the error alone, on a
  response with a null error, the response and the parsed body. \<open>None\<close> for the network
  means that no answer arrives.
\<close>

definition request ::
  "transport option \<Rightarrow> obj \<Rightarrow> (jsval \<Rightarrow> nat option \<Rightarrow> result \<Rightarrow> event list) \<Rightarrow> event list" where
  "request net opts cb =
     Request opts #
     (case net of
        None \<Rightarrow> []
      | Some t \<Rightarrow>
          (case t opts of
             Failure e \<Rightarrow> cb e None Undef
           | Success status body \<Rightarrow> cb Null (Some status) body))"

text \<open>\<^verbatim>\<open>Pivotal.prototype.api\<close>: the options object sent to \<^verbatim>\<open>request\<close>.\<close>

definition api_opts :: "pivotal \<Rightarrow> string \<Rightarrow> string \<Rightarrow> obj option \<Rightarrow> obj" where
  "api_opts self method path options =
     extend_obj
       (fmap_of_list
          [(''method'', Str method),
           (''url'', Str (baseUrl self @ path)),
           (''json'', Bool True),
           (''headers'', Obj (fmap_of_list [(''X-TrackerToken'', apiToken self)]))])
       options"

definition api ::
  "pivotal \<Rightarrow> transport option \<Rightarrow> string \<Rightarrow> string \<Rightarrow> obj option \<Rightarrow>
     (jsval \<Rightarrow> result \<Rightarrow> event list) callback \<Rightarrow> event list" where
  "api self net method path options callback =
     (let opts = api_opts self method path options in
      request net opts
        (\<lambda>err response result.
           if isFunction callback then invoke callback (\<lambda>f. f err result) else []))"

text \<open>
  \<^verbatim>\<open>Pivotal.prototype.paginated\<close>. The query string of a page request:
  \<^verbatim>\<open>_.extend({offset: offset, limit: limit, envelope: true}, options)\<close>.
\<close>

definition page_query :: "int \<Rightarrow> int \<Rightarrow> obj option \<Rightarrow> obj" where
  "page_query offset limit options =
     extend_obj
       (fmap_of_list
          [(''offset'', Num offset), (''limit'', Num limit), (''envelope'', Bool True)])
       options"

text \<open>\<^verbatim>\<open>completed && completed(args)\<close>.\<close>

definition complete :: "unit callback \<Rightarrow> (jsval + result) list \<Rightarrow> event list" where
  "complete completed args =
     (if supplied completed then invoke completed (\<lambda>f. [OnComplete args]) else [])"

text \<open>
  The continuation \<^verbatim>\<open>function(cont) {...}\<close> handed to the page callback. \<open>again\<close> is the
  recursive call \<^verbatim>\<open>that.paginated(path, _, _, options, callback, completed)\<close>; \<open>offset\<close> is
  the offset already advanced by the page (\<open>None\<close> if that sum is infinite).
\<close>

definition continuation ::
  "(int \<Rightarrow> int \<Rightarrow> event list) \<Rightarrow> unit callback \<Rightarrow> pagination \<Rightarrow> int option \<Rightarrow> int \<Rightarrow>
     jsval \<Rightarrow> event list" where
  "continuation again completed pg offset limit cont =
     (if truthy cont then
        (case offset of
           None \<Rightarrow> [Overflow]
         | Some off \<Rightarrow>
             (case js_sub (total pg) off of
                None \<Rightarrow> [Overflow]
              | Some left \<Rightarrow>
                  if left > 0 then again off (min left limit)
                  else complete completed []))
      else complete completed [])"

text \<open>The callback \<^verbatim>\<open>function(err, res) {...}\<close> that \<^verbatim>\<open>paginated\<close> passes to \<^verbatim>\<open>api\<close>.\<close>

definition on_response ::
  "(int \<Rightarrow> int \<Rightarrow> event list) \<Rightarrow> int \<Rightarrow> int \<Rightarrow> onpage callback \<Rightarrow> unit callback \<Rightarrow>
     jsval \<Rightarrow> result \<Rightarrow> event list" where
  "on_response again offset limit callback completed err res =
     (if truthy err then complete completed [Inl err]
      else
        (case res of
           Undef \<Rightarrow> [Throw TypeError]
         | Nul \<Rightarrow> [Throw TypeError]
         | Plain v \<Rightarrow> complete completed [Inr res]
         | Envelope d pg \<Rightarrow>
             (let offset' = js_add offset (returned pg) in
              if supplied callback then
                invoke callback
                  (\<lambda>f. OnPage Null d pg #
                       (case f d pg of
                          Ignore \<Rightarrow> []
                        | Invoke cont \<Rightarrow>
                            continuation again completed pg offset' limit cont))
              else [])))"

text \<open>
  A session is run against the answers the service will give, one transport per round
  trip; when they are used up, the request that was sent stays unanswered.
\<close>

fun paginated ::
  "pivotal \<Rightarrow> transport list \<Rightarrow> string \<Rightarrow> int \<Rightarrow> int \<Rightarrow> obj option \<Rightarrow>
     onpage callback \<Rightarrow> unit callback \<Rightarrow> event list" where
  "paginated self [] path offset limit options callback completed =
     api self None ''get'' path
       (Some (fmap_of_list [(''qs'', Obj (page_query offset limit options))]))
       (Function (on_response (\<lambda>offset limit. []) offset limit callback completed))"
| "paginated self (t # ts) path offset limit options callback completed =
     api self (Some t) ''get'' path
       (Some (fmap_of_list [(''qs'', Obj (page_query offset limit options))]))
       (Function
          (on_response
             (\<lambda>offset limit. paginated self ts path offset limit options callback completed)
             offset limit callback completed))"





section \<open>Reading a trace\<close>

text \<open>The options object that \<^verbatim>\<open>api\<close> builds for a page request of \<^verbatim>\<open>paginated\<close>.\<close>

definition page_opts :: "pivotal \<Rightarrow> string \<Rightarrow> int \<Rightarrow> int \<Rightarrow> obj option \<Rightarrow> obj" where
  "page_opts self path offset limit options =
     api_opts self ''get'' path
       (Some (fmap_of_list [(''qs'', Obj (page_query offset limit options))]))"

text \<open>The requests of a trace and the pages delivered, in order.\<close>

fun requests :: "event list \<Rightarrow> obj list" where
  "requests [] = []"
| "requests (Request opts # es) = opts # requests es"
| "requests (e # es) = requests es"

fun pages :: "event list \<Rightarrow> pagination list" where
  "pages [] = []"
| "pages (OnPage e d pg # es) = pg # pages es"
| "pages (e # es) = pages es"

text \<open>A query parameter of a request, and its value when it is a number.\<close>

definition qs_param :: "string \<Rightarrow> obj \<Rightarrow> jsval option" where
  "qs_param k opts =
     (case fmlookup opts ''qs'' of Some (Obj q) \<Rightarrow> fmlookup q k | _ \<Rightarrow> None)"

definition qs_num :: "string \<Rightarrow> obj \<Rightarrow> int option" where
  "qs_num k opts = (case qs_param k opts of Some (Num n) \<Rightarrow> Some n | _ \<Rightarrow> None)"

text \<open>A property of the caller's options object, if the caller passed one.\<close>

definition option_of :: "obj option \<Rightarrow> string \<Rightarrow> jsval option" where
  "option_of options k = (case options of None \<Rightarrow> None | Some s \<Rightarrow> fmlookup s k)"

text \<open>The caller's options carry neither \<^verbatim>\<open>offset\<close> nor \<^verbatim>\<open>limit\<close>.\<close>

definition unreserved :: "obj option \<Rightarrow> bool" where
  "unreserved options \<longleftrightarrow>
     option_of options ''offset'' = None \<and> option_of options ''limit'' = None"

section \<open>Services and callers\<close>

text \<open>
  Environments used to state and to instantiate the properties below. A service that
  answers every request with \<open>r\<close> items of \<open>n\<close>; one that returns exactly the requested
  limit of its \<open>n\<close> items; and one that lists its \<open>n\<close> items, from the requested offset up
  to the requested limit, and refuses a request without a proper offset and limit.
\<close>

definition fixed_page :: "int \<Rightarrow> int \<Rightarrow> transport" where
  "fixed_page r n opts = Success 200 (Envelope (Arr []) \<lparr>returned = r, total = n\<rparr>)"

definition full_pages :: "int \<Rightarrow> jsval \<Rightarrow> transport" where
  "full_pages n d opts =
     (case qs_num ''limit'' opts of
        Some l \<Rightarrow> Success 200 (Envelope d \<lparr>returned = l, total = n\<rparr>)
      | None \<Rightarrow> Failure (Str ''limit expected''))"

definition listing :: "int \<Rightarrow> transport" where
  "listing n opts =
     (case (qs_num ''offset'' opts, qs_num ''limit'' opts) of
        (Some off, Some l) \<Rightarrow>
          if 0 \<le> off \<and> 0 \<le> l
          then Success 200 (Envelope (Arr []) \<lparr>returned = max 0 (min l (n - off)), total = n\<rparr>)
          else Success 400 (Plain (Str ''bad request''))
      | _ \<Rightarrow> Success 400 (Plain (Str ''bad request'')))"

text \<open>A page callback that calls the continuation with the same value on every page.\<close>

definition always :: "jsval \<Rightarrow> onpage" where
  "always v d pg = Invoke v"


definition counts :: "transport \<Rightarrow> bool" where
  "counts t \<longleftrightarrow>
     (\<forall>opts st d pg. t opts = Success st (Envelope d pg) \<longrightarrow> 0 \<le> returned pg)"

definition fixed_total :: "int \<Rightarrow> transport \<Rightarrow> bool" where
  "fixed_total T t \<longleftrightarrow>
     (\<forall>opts st d pg. t opts = Success st (Envelope d pg) \<longrightarrow> total pg = T)"

definition within_limit :: "transport \<Rightarrow> bool" where
  "within_limit t \<longleftrightarrow>
     (\<forall>opts st d pg l.
        t opts = Success st (Envelope d pg) \<longrightarrow> qs_num ''limit'' opts = Some l \<longrightarrow>
        returned pg \<le> l)"

definition within_total :: "transport \<Rightarrow> bool" where
  "within_total t \<longleftrightarrow>
     (\<forall>opts st d pg. t opts = Success st (Envelope d pg) \<longrightarrow> returned pg \<le> total pg)"


definition persistent :: "onpage \<Rightarrow> bool" where
  "persistent f \<longleftrightarrow> (\<forall>d pg. \<exists>cont. f d pg = Invoke cont \<and> truthy cont)"


section \<open>Exact arithmetic\<close>

declare ulp.simps [simp del]

lemma ulp_small: "m < 2 ^ 53 \<Longrightarrow> ulp m = 1"
  by (simp add: ulp.simps)

lemma ulp_edge: "ulp (2 ^ 53) = 2"
  by (subst ulp.simps) (simp add: ulp_small)

lemma ulp_edge_numeral: "ulp 9007199254740992 = 2"
  using ulp_edge by simp

lemma round_double_safe: "safe n \<Longrightarrow> round_double n = n"
proof -
  assume n: "safe n"
  consider "\<bar>n\<bar> < 2 ^ 53" | "n = 2 ^ 53" | "n = - (2 ^ 53)"
    using n unfolding safe_def by linarith
  then show ?thesis
  proof cases
    case 1
    then have "nat \<bar>n\<bar> < 2 ^ 53" by (simp add: nat_less_iff)
    then have "ulp (nat \<bar>n\<bar>) = 1" by (rule ulp_small)
    then show ?thesis by (simp add: round_double_def Let_def sgn_if)
  next
    case 2
    have "nat \<bar>n\<bar> = 2 ^ 53" using 2 by simp
    then show ?thesis using 2 by (simp add: round_double_def Let_def ulp_edge_numeral)
  next
    case 3
    have "nat \<bar>n\<bar> = 2 ^ 53" using 3 by simp
    then show ?thesis using 3 by (simp add: round_double_def Let_def ulp_edge_numeral)
  qed
qed



lemma js_add_safe: "safe (a + b) \<Longrightarrow> js_add a b = Some (a + b)"
proof -
  assume s: "safe (a + b)"
  have "(2::int) ^ 53 < 2 ^ 1024" by simp
  with s have "\<bar>a + b\<bar> < 2 ^ 1024" unfolding safe_def by linarith
  with s show ?thesis by (simp add: js_add_def round_double_safe)
qed

lemma js_sub_safe: "safe (a - b) \<Longrightarrow> js_sub a b = Some (a - b)"
proof -
  assume s: "safe (a - b)"
  have "(2::int) ^ 53 < 2 ^ 1024" by simp
  with s have "\<bar>a - b\<bar> < 2 ^ 1024" unfolding safe_def by linarith
  with s show ?thesis by (simp add: js_sub_def round_double_safe)
qed

section \<open>Unfolding one round trip\<close>

lemma extend_lookup:
  "fmlookup (extend_obj d s) k =
     (case option_of s k of Some v \<Rightarrow> Some v | None \<Rightarrow> fmlookup d k)"
  by (cases s) (auto simp: extend_obj_def option_of_def split: option.splits)

lemma paginated_Nil:
  "paginated self [] path offset limit options callback completed =
     [Request (page_opts self path offset limit options)]"
  by (simp add: api_def request_def page_opts_def split: outcome.splits)

lemma paginated_Cons:
  "paginated self (t # ts) path offset limit options callback completed =
     Request (page_opts self path offset limit options) #
     (case t (page_opts self path offset limit options) of
        Failure e \<Rightarrow>
          on_response
            (\<lambda>offset limit. paginated self ts path offset limit options callback completed)
            offset limit callback completed e Undef
      | Success st body \<Rightarrow>
          on_response
            (\<lambda>offset limit. paginated self ts path offset limit options callback completed)
            offset limit callback completed Null body)"
  by (simp add: api_def request_def page_opts_def split: outcome.splits)

declare paginated.simps [simp del]

lemma paginated_starts:
  "\<exists>rest. paginated self net path offset limit options callback completed =
      Request (page_opts self path offset limit options) # rest"
  by (cases net) (simp_all add: paginated_Nil paginated_Cons)

lemma page_opts_qs:
  "fmlookup (page_opts self path offset limit options) ''qs'' =
     Some (Obj (page_query offset limit options))"
  by (simp add: page_opts_def api_opts_def extend_obj_def)

lemma qs_param_page_opts:
  "qs_param k (page_opts self path offset limit options) =
     (case option_of options k of
        Some v \<Rightarrow> Some v
      | None \<Rightarrow>
          fmlookup
            (fmap_of_list
               [(''offset'', Num offset), (''limit'', Num limit), (''envelope'', Bool True)])
            k)"
  by (simp add: qs_param_def page_opts_qs page_query_def extend_lookup split: option.splits)

lemma requests_complete: "requests (complete completed args) = []"
  by (cases completed) (simp_all add: complete_def)

lemma requests_on_response:
  "requests (on_response again offset limit callback completed err res) = [] \<or>
   (\<exists>offset' limit'.
      requests (on_response again offset limit callback completed err res) =
        requests (again offset' limit'))"
  by (cases callback)
     (auto simp: on_response_def continuation_def requests_complete Let_def
           split: result.splits decision.splits option.splits)

lemma requests_paginated_form:
  "r \<in> set (requests (paginated self net path offset limit options callback completed)) \<Longrightarrow>
     \<exists>offset' limit'. r = page_opts self path offset' limit' options"
proof (induction net arbitrary: offset limit)
  case Nil
  then show ?case by (auto simp: paginated_Nil)
next
  case (Cons t ts)
  let ?again = "\<lambda>offset limit. paginated self ts path offset limit options callback completed"
  from Cons.prems have "r = page_opts self path offset limit options \<or>
     (\<exists>err res. r \<in> set (requests (on_response ?again offset limit callback completed err res)))"
    by (auto simp: paginated_Cons split: outcome.splits)
  then show ?case
  proof
    assume "r = page_opts self path offset limit options"
    then show ?thesis by blast
  next
    assume "\<exists>err res.
      r \<in> set (requests (on_response ?again offset limit callback completed err res))"
    then obtain err res
      where r: "r \<in> set (requests (on_response ?again offset limit callback completed err res))"
      by blast
    from requests_on_response [of ?again offset limit callback completed err res] r
    obtain offset' limit' where "r \<in> set (requests (?again offset' limit'))"
      by auto
    then show ?thesis by (rule Cons.IH)
  qed
qed

section \<open>The query of a page request\<close>

text \<open>
  Claim C1, as the code has it. Every request of a session starts from the options object
  of a page request at some offset and limit of the paginator, the first one at the offset
  and limit the session was started with. The query sent is
  \<open>{offset, limit, envelope: true}\<close> extended with the caller's options: a key of the
  options, \<^verbatim>\<open>offset\<close>, \<^verbatim>\<open>limit\<close> and \<^verbatim>\<open>envelope\<close> included, replaces the paginator's
  value, and the paginator's value is sent for a key the options do not have.
\<close>

theorem paginated_query_merge:
  "(\<exists>rest. paginated self net path offset limit options callback completed =
      Request (page_opts self path offset limit options) # rest) \<and>
   (\<forall>r \<in> set (requests (paginated self net path offset limit options callback completed)).
      \<exists>offset' limit'. r = page_opts self path offset' limit' options) \<and>
   (\<forall>offset' limit' k.
      qs_param k (page_opts self path offset' limit' options) =
        (case option_of options k of
           Some v \<Rightarrow> Some v
         | None \<Rightarrow>
             fmlookup
               (fmap_of_list
                  [(''offset'', Num offset'), (''limit'', Num limit'),
                   (''envelope'', Bool True)])
               k))"
proof (intro conjI ballI allI)
  show "\<exists>rest. paginated self net path offset limit options callback completed =
      Request (page_opts self path offset limit options) # rest"
    by (rule paginated_starts)
next
  fix r
  assume "r \<in> set (requests (paginated self net path offset limit options callback completed))"
  then show "\<exists>offset' limit'. r = page_opts self path offset' limit' options"
    by (rule requests_paginated_form)
next
  fix offset' limit' k
  show "qs_param k (page_opts self path offset' limit' options) =
      (case option_of options k of
         Some v \<Rightarrow> Some v
       | None \<Rightarrow>
           fmlookup
             (fmap_of_list
                [(''offset'', Num offset'), (''limit'', Num limit'), (''envelope'', Bool True)])
             k)"
    by (rule qs_param_page_opts)
qed

text \<open>
  An instance: a session started at offset 0 with the options \<open>{offset: 5}\<close> sends the
  options' offset and the paginator's limit.
\<close>

theorem paginated_query_merge_witness:
  "page_opts (Pivotal (Str ''token'')) ''projects/1/stories'' 0 128
       (Some (fmap_of_list [(''offset'', Num 5)]))
     \<in> set (requests (paginated (Pivotal (Str ''token'')) [] ''projects/1/stories'' 0 128
          (Some (fmap_of_list [(''offset'', Num 5)])) Absent Absent)) \<and>
   qs_param ''offset''
       (page_opts (Pivotal (Str ''token'')) ''projects/1/stories'' 0 128
          (Some (fmap_of_list [(''offset'', Num 5)]))) = Some (Num 5) \<and>
   qs_param ''limit''
       (page_opts (Pivotal (Str ''token'')) ''projects/1/stories'' 0 128
          (Some (fmap_of_list [(''offset'', Num 5)]))) = Some (Num 128)"
  using paginated_query_merge [of "Pivotal (Str ''token'')" "[]" "''projects/1/stories''" 0 128
      "Some (fmap_of_list [(''offset'', Num 5)])" Absent Absent]
  by (simp add: option_of_def fmlookup_of_list paginated_Nil)

text \<open>
  Claim C1 as the spec words it (the reserved keys are always overwritten by the
  paginator) fails: with the options \<open>{offset: 5}\<close> the request of a session at offset 0
  does not carry the offset 0.
\<close>

theorem extra_params_override_counterexample:
  "map (qs_param ''offset'')
     (requests (paginated (Pivotal (Str ''token'')) [] ''projects/1/stories'' 0 128
        (Some (fmap_of_list [(''offset'', Num 5)])) Absent Absent)) \<noteq> [Some (Num 0)]"
  by (simp add: paginated_Nil qs_param_page_opts option_of_def fmlookup_of_list)

section \<open>One page and its continuation\<close>

lemma qs_num_page_opts:
  "unreserved options \<Longrightarrow>
     qs_num ''offset'' (page_opts self path offset limit options) = Some offset \<and>
     qs_num ''limit'' (page_opts self path offset limit options) = Some limit"
  by (simp add: qs_num_def qs_param_page_opts unreserved_def)

lemma paginated_page:
  assumes "t (page_opts self path offset limit options) = Success st (Envelope d pg)"
    and "f d pg = Invoke cont"
  shows "paginated self (t # ts) path offset limit options (Function f) completed =
     Request (page_opts self path offset limit options) # OnPage Null d pg #
     (if truthy cont then
        (case js_add offset (returned pg) of
           None \<Rightarrow> [Overflow]
         | Some off \<Rightarrow>
             (case js_sub (total pg) off of
                None \<Rightarrow> [Overflow]
              | Some left \<Rightarrow>
                  if 0 < left
                  then paginated self ts path off (min left limit) options (Function f) completed
                  else complete completed []))
      else complete completed [])"
  using assms by (simp add: paginated_Cons on_response_def continuation_def Let_def)

lemma paginated_page_safe:
  assumes "t (page_opts self path offset limit options) = Success st (Envelope d pg)"
    and "f d pg = Invoke cont"
    and "safe (offset + returned pg)"
    and "safe (total pg - (offset + returned pg))"
  shows "paginated self (t # ts) path offset limit options (Function f) completed =
     Request (page_opts self path offset limit options) # OnPage Null d pg #
     (if truthy cont \<and> 0 < total pg - (offset + returned pg) then
        paginated self ts path (offset + returned pg)
          (min (total pg - (offset + returned pg)) limit) options (Function f) completed
      else complete completed [])"
  using assms by (simp add: paginated_page [where cont = cont] js_add_safe js_sub_safe)




section \<open>Errors and malformed responses\<close>

text \<open>
  A transport error, or a body other than \<^verbatim>\<open>undefined\<close> and \<^verbatim>\<open>null\<close> that has no
  pagination, reaches \<^verbatim>\<open>completed\<close> as its one argument, and nothing else happens.
\<close>

lemma error_reaches_completed:
  "truthy e \<Longrightarrow>
     paginated self ((\<lambda>opts. Failure e) # ts) path offset limit options callback (Function ()) =
       [Request (page_opts self path offset limit options), OnComplete [Inl e]]"
  "paginated self ((\<lambda>opts. Success st (Plain v)) # ts) path offset limit options callback
       (Function ()) =
     [Request (page_opts self path offset limit options), OnComplete [Inr (Plain v)]]"
  by (simp_all add: paginated_Cons on_response_def complete_def)

text \<open>
  In every session the page callback receives a null error, and \<^verbatim>\<open>completed\<close> receives
  at most one argument.
\<close>

lemma on_response_events:
  "e \<in> set (on_response again offset limit callback completed err res) \<Longrightarrow>
     e = Throw TypeError \<or> e = Overflow \<or> (\<exists>d pg. e = OnPage Null d pg) \<or>
     (\<exists>args. e = OnComplete args \<and> length args \<le> 1) \<or>
     (\<exists>offset' limit'. e \<in> set (again offset' limit'))"
  by (cases callback; cases completed)
     (auto simp: on_response_def continuation_def complete_def Let_def
           split: result.splits decision.splits if_splits option.splits)

lemma callback_arguments:
  "e \<in> set (paginated self net path offset limit options callback completed) \<Longrightarrow>
     (\<exists>opts. e = Request opts) \<or> e = Throw TypeError \<or> e = Overflow \<or>
     (\<exists>d pg. e = OnPage Null d pg) \<or> (\<exists>args. e = OnComplete args \<and> length args \<le> 1)"
proof (induction net arbitrary: offset limit)
  case Nil
  then show ?case by (simp add: paginated_Nil)
next
  case (Cons t ts)
  let ?again = "\<lambda>offset limit. paginated self ts path offset limit options callback completed"
  from Cons.prems have "e = Request (page_opts self path offset limit options) \<or>
     (\<exists>err res. e \<in> set (on_response ?again offset limit callback completed err res))"
    by (auto simp: paginated_Cons split: outcome.splits)
  then show ?case
  proof
    assume "e = Request (page_opts self path offset limit options)"
    then show ?thesis by blast
  next
    assume "\<exists>err res. e \<in> set (on_response ?again offset limit callback completed err res)"
    then obtain err res
      where "e \<in> set (on_response ?again offset limit callback completed err res)"
      by blast
    from on_response_events [OF this] Cons.IH show ?thesis by blast
  qed
qed

text \<open>
  Claim C4 fails on the code for a response without a body. When the round trip succeeds
  and the body is \<^verbatim>\<open>null\<close> or \<^verbatim>\<open>undefined\<close>, the test \<^verbatim>\<open>!res.pagination\<close> reads a property
  of it and raises a \<^verbatim>\<open>TypeError\<close>: \<^verbatim>\<open>completed\<close> is not invoked, whatever the callbacks are.
\<close>

theorem null_response_throws:
  "paginated self ((\<lambda>opts. Success st Nul) # ts) path offset limit options callback completed =
     [Request (page_opts self path offset limit options), Throw TypeError] \<and>
   paginated self ((\<lambda>opts. Success st Undef) # ts) path offset limit options callback completed =
     [Request (page_opts self path offset limit options), Throw TypeError]"
  by (simp add: paginated_Cons on_response_def)

text \<open>
  Claim C8. Without a page callback a page ends the session silently: the request is the
  only event. Without a completion callback an error, or a body without pagination, is
  dropped in the same way.
\<close>

theorem missing_callbacks_stop_silently:
  "(t (page_opts self path offset limit options) = Success st (Envelope d pg) \<longrightarrow>
      paginated self (t # ts) path offset limit options Absent completed =
        [Request (page_opts self path offset limit options)]) \<and>
   (t (page_opts self path offset limit options) = Failure e \<and> truthy e \<longrightarrow>
      paginated self (t # ts) path offset limit options callback Absent =
        [Request (page_opts self path offset limit options)]) \<and>
   (t (page_opts self path offset limit options) = Success st (Plain v) \<longrightarrow>
      paginated self (t # ts) path offset limit options callback Absent =
        [Request (page_opts self path offset limit options)])"
  by (simp add: paginated_Cons on_response_def complete_def)

theorem missing_callbacks_stop_silently_witness:
  "paginated (Pivotal (Str ''token'')) [fixed_page 2 5, fixed_page 2 5]
      ''projects/1/stories'' 0 128 None Absent (Function ()) =
     [Request (page_opts (Pivotal (Str ''token'')) ''projects/1/stories'' 0 128 None)] \<and>
   truthy (Str ''ECONNRESET'') \<and>
   paginated (Pivotal (Str ''token'')) [\<lambda>opts. Failure (Str ''ECONNRESET'')]
      ''projects/1/stories'' 0 128 None (Function (always (Bool True))) Absent =
     [Request (page_opts (Pivotal (Str ''token'')) ''projects/1/stories'' 0 128 None)] \<and>
   paginated (Pivotal (Str ''token'')) [\<lambda>opts. Success 404 (Plain (Str ''not found''))]
      ''projects/1/stories'' 0 128 None (Function (always (Bool True))) Absent =
     [Request (page_opts (Pivotal (Str ''token'')) ''projects/1/stories'' 0 128 None)]"
  using
    missing_callbacks_stop_silently [of "fixed_page 2 5"
      "Pivotal (Str ''token'')" "''projects/1/stories''" 0 128 None 200 "Arr []"
      "\<lparr>returned = 2, total = 5\<rparr>" "[fixed_page 2 5]" "Function ()"]
    missing_callbacks_stop_silently [of "\<lambda>opts. Failure (Str ''ECONNRESET'')"
      "Pivotal (Str ''token'')" "''projects/1/stories''" 0 128 None _ _ _
      "[]" _ "Str ''ECONNRESET''" "Function (always (Bool True))"]
    missing_callbacks_stop_silently [of "\<lambda>opts. Success 404 (Plain (Str ''not found''))"
      "Pivotal (Str ''token'')" "''projects/1/stories''" 0 128 None 404 _ _
      "[]" _ _ "Function (always (Bool True))" "Str ''not found''"]
  by (simp add: fixed_page_def)

section \<open>The scenario of 300 items\<close>

text \<open>
  Claim C6. Against a service of 300 items that returns exactly the requested limit, a
  session from offset 0 with limit 128, continued on every page, sends three requests, at
  the offsets 0, 128, 256 with the limits 128, 128, 44, delivers pages of 128, 128 and 44
  items and ends with \<^verbatim>\<open>completed()\<close> after the third page.
\<close>

theorem scenario_300_by_128:
  assumes "unreserved options"
  shows "paginated self (full_pages 300 d1 # full_pages 300 d2 # full_pages 300 d3 # ts)
       path 0 128 options (Function (always (Bool True))) (Function ()) =
     [Request (page_opts self path 0 128 options),
      OnPage Null d1 \<lparr>returned = 128, total = 300\<rparr>,
      Request (page_opts self path 128 128 options),
      OnPage Null d2 \<lparr>returned = 128, total = 300\<rparr>,
      Request (page_opts self path 256 44 options),
      OnPage Null d3 \<lparr>returned = 44, total = 300\<rparr>,
      OnComplete []] \<and>
     map (qs_num ''offset'') [page_opts self path 0 128 options,
        page_opts self path 128 128 options, page_opts self path 256 44 options] =
       [Some 0, Some 128, Some 256] \<and>
     map (qs_num ''limit'') [page_opts self path 0 128 options,
        page_opts self path 128 128 options, page_opts self path 256 44 options] =
       [Some 128, Some 128, Some 44]"
  using assms
  by (simp add: paginated_page_safe [where cont = "Bool True"] full_pages_def always_def
        qs_num_page_opts complete_def safe_def)

theorem scenario_300_by_128_witness:
  "unreserved None \<and>
   requests (paginated (Pivotal (Str ''token''))
       [full_pages 300 (Arr []), full_pages 300 (Arr []), full_pages 300 (Arr [])]
       ''projects/1/stories'' 0 128 None (Function (always (Bool True))) (Function ())) =
     [page_opts (Pivotal (Str ''token'')) ''projects/1/stories'' 0 128 None,
      page_opts (Pivotal (Str ''token'')) ''projects/1/stories'' 128 128 None,
      page_opts (Pivotal (Str ''token'')) ''projects/1/stories'' 256 44 None]"
proof -
  have u: "unreserved None" by (simp add: unreserved_def option_of_def)
  show ?thesis
    using u scenario_300_by_128 [OF u, of "Pivotal (Str ''token'')" "Arr []" "Arr []" "Arr []" "[]"
        "''projects/1/stories''"]
    by simp
qed

section \<open>The request executor\<close>

lemma api_opts_lookup:
  "fmlookup (api_opts self method path options) k =
      (case option_of options k of
         Some v \<Rightarrow> Some v
       | None \<Rightarrow>
           fmlookup
             (fmap_of_list
                [(''method'', Str method),
                 (''url'', Str (baseUrl self @ path)),
                 (''json'', Bool True),
                 (''headers'', Obj (fmap_of_list [(''X-TrackerToken'', apiToken self)]))])
             k)"
  by (simp add: api_opts_def extend_lookup split: option.splits)

lemma api_Function:
  "api self (Some t) method path options (Function f) =
     Request (api_opts self method path options) #
     (case t (api_opts self method path options) of
        Failure e \<Rightarrow> f e Undef
      | Success st body \<Rightarrow> f Null body)"
  by (simp add: api_def request_def split: outcome.splits)

text \<open>
  Claim C7. The options of the request are the defaults (method, url, \<^verbatim>\<open>json: true\<close> and
  the \<^verbatim>\<open>X-TrackerToken\<close> header with the instance's token) with every property of the
  caller's options laid over them. The callback receives the transport error and an
  undefined result when the round trip fails, and a null error and the parsed body, whatever
  the status code, when it succeeds.
\<close>

theorem api_defaults_and_result:
  "(\<forall>k. fmlookup (api_opts self method path options) k =
      (case option_of options k of
         Some v \<Rightarrow> Some v
       | None \<Rightarrow>
           fmlookup
             (fmap_of_list
                [(''method'', Str method),
                 (''url'', Str (baseUrl self @ path)),
                 (''json'', Bool True),
                 (''headers'', Obj (fmap_of_list [(''X-TrackerToken'', apiToken self)]))])
             k)) \<and>
   fmlookup (api_opts self method path options) ''json'' =
      (case option_of options ''json'' of Some v \<Rightarrow> Some v | None \<Rightarrow> Some (Bool True)) \<and>
   fmlookup (api_opts self method path options) ''headers'' =
      (case option_of options ''headers'' of
         Some v \<Rightarrow> Some v
       | None \<Rightarrow> Some (Obj (fmap_of_list [(''X-TrackerToken'', apiToken self)]))) \<and>
   api self (Some t) method path options (Function f) =
     Request (api_opts self method path options) #
     (case t (api_opts self method path options) of
        Failure e \<Rightarrow> f e Undef
      | Success st body \<Rightarrow> f Null body)"
proof (intro conjI allI)
  fix k
  show "fmlookup (api_opts self method path options) k =
      (case option_of options k of
         Some v \<Rightarrow> Some v
       | None \<Rightarrow>
           fmlookup
             (fmap_of_list
                [(''method'', Str method),
                 (''url'', Str (baseUrl self @ path)),
                 (''json'', Bool True),
                 (''headers'', Obj (fmap_of_list [(''X-TrackerToken'', apiToken self)]))])
             k)"
    by (rule api_opts_lookup)
next
  show "fmlookup (api_opts self method path options) ''json'' =
      (case option_of options ''json'' of Some v \<Rightarrow> Some v | None \<Rightarrow> Some (Bool True))"
    by (simp add: api_opts_lookup split: option.splits)
next
  show "fmlookup (api_opts self method path options) ''headers'' =
      (case option_of options ''headers'' of
         Some v \<Rightarrow> Some v
       | None \<Rightarrow> Some (Obj (fmap_of_list [(''X-TrackerToken'', apiToken self)])))"
    by (simp add: api_opts_lookup split: option.splits)
next
  show "api self (Some t) method path options (Function f) =
     Request (api_opts self method path options) #
     (case t (api_opts self method path options) of
        Failure e \<Rightarrow> f e Undef
      | Success st body \<Rightarrow> f Null body)"
    by (rule api_Function)
qed

text \<open>
  Claim C10. Nothing is invoked before the answer arrives. When it arrives, a callback that
  is a function is applied once, to the error and the result; a callback that is missing
  or is not a function is not called, and no exception is raised.
\<close>

theorem api_callback_once:
  "api self None method path options callback = [Request (api_opts self method path options)] \<and>
   api self (Some t) method path options (Function f) =
     Request (api_opts self method path options) #
     (case t (api_opts self method path options) of
        Failure e \<Rightarrow> f e Undef
      | Success st body \<Rightarrow> f Null body) \<and>
   api self (Some t) method path options Absent = [Request (api_opts self method path options)] \<and>
   api self (Some t) method path options NotCallable =
     [Request (api_opts self method path options)]"
  by (simp add: api_def request_def split: outcome.splits)

section \<open>The paginated wrappers\<close>



section \<open>Offsets across a session\<close>

lemma pages_complete: "pages (complete completed args) = []"
  by (cases completed) (simp_all add: complete_def)






lemma complete_not_exhausted: "OnComplete [] \<notin> set (complete completed [x])"
  by (cases completed) (simp_all add: complete_def)

lemma completes_on_page:
  assumes "OnComplete [] \<in> set (paginated self (t # ts) path offset limit options callback completed)"
  shows "\<exists>st d pg. t (page_opts self path offset limit options) = Success st (Envelope d pg)"
proof (cases "t (page_opts self path offset limit options)")
  case (Failure e)
  with assms show ?thesis
    by (auto simp: paginated_Cons on_response_def complete_not_exhausted split: if_splits)
next
  case (Success st body)
  with assms show ?thesis
    by (cases body) (auto simp: paginated_Cons on_response_def complete_not_exhausted)
qed


lemma ulp_next: "2 ^ 53 \<le> m \<Longrightarrow> m < 2 ^ 54 \<Longrightarrow> ulp m = 2"
  by (subst ulp.simps) (simp add: ulp_small)

lemma js_add_beyond:
  "js_add 9007199254740992 1 = Some 9007199254740992"
  "js_add 9007199254740992 2 = Some 9007199254740994"
  by (simp_all add: js_add_def round_double_def Let_def ulp_next)

lemma unreserved_None: "unreserved None"
  by (simp add: unreserved_def option_of_def)

lemma listing_session:
  "paginated self [listing 300, listing 300, listing 300] path 0 128 None
      (Function (always (Bool True))) (Function ()) =
     [Request (page_opts self path 0 128 None),
      OnPage Null (Arr []) \<lparr>returned = 128, total = 300\<rparr>,
      Request (page_opts self path 128 128 None),
      OnPage Null (Arr []) \<lparr>returned = 128, total = 300\<rparr>,
      Request (page_opts self path 256 44 None),
      OnPage Null (Arr []) \<lparr>returned = 44, total = 300\<rparr>,
      OnComplete []]"
  by (simp add: paginated_page_safe [where cont = "Bool True"] listing_def always_def
        qs_num_page_opts unreserved_None complete_def safe_def)

lemma listing_honest:
  "0 \<le> n \<Longrightarrow>
     within_limit (listing n) \<and> within_total (listing n) \<and> fixed_total n (listing n) \<and>
     counts (listing n)"
  by (auto simp: within_limit_def within_total_def fixed_total_def counts_def listing_def
        split: option.splits if_splits)

lemma always_persistent: "truthy v \<Longrightarrow> persistent (always v)"
  by (simp add: persistent_def always_def)






section \<open>The sum of the pages\<close>

lemma pages_sum:
  assumes "unreserved options"
    and "\<forall>t \<in> set net. within_limit t \<and> within_total t \<and> fixed_total T t \<and> counts t"
    and "persistent f"
    and "OnComplete [] \<in> set (paginated self net path offset limit options (Function f) completed)"
    and "offset = 0 \<or> offset + limit \<le> T"
    and "0 \<le> offset" and "T \<le> 2 ^ 53"
  shows "offset + sum_list (map returned
            (pages (paginated self net path offset limit options (Function f) completed))) = T"
  using assms(2,4,5,6)
proof (induction net arbitrary: offset limit)
  case Nil
  then show ?case by (simp add: paginated_Nil)
next
  case (Cons t ts)
  from completes_on_page [OF Cons.prems(2)]
  obtain st d pg
    where t: "t (page_opts self path offset limit options) = Success st (Envelope d pg)"
    by blast
  from assms(3) obtain cont where f: "f d pg = Invoke cont" and cont: "truthy cont"
    unfolding persistent_def by blast
  from Cons.prems(1) have wl: "within_limit t" and wt: "within_total t"
    and ft: "fixed_total T t" and ct: "counts t"
    by simp_all
  from ft t have tot: "total pg = T" unfolding fixed_total_def by blast
  from ct t have nn: "0 \<le> returned pg" unfolding counts_def by blast
  from wl t qs_num_page_opts [OF assms(1), of self path offset limit]
  have ret: "returned pg \<le> limit" unfolding within_limit_def by blast
  from wt t have ret': "returned pg \<le> total pg" unfolding within_total_def by blast
  let ?o = "offset + returned pg"
  let ?l = "min (total pg - ?o) limit"
  let ?rest = "paginated self ts path ?o ?l options (Function f) completed"
  have le: "?o \<le> T" using Cons.prems(3) ret ret' tot by auto
  have ge: "0 \<le> ?o" using nn Cons.prems(4) by linarith
  have s1: "safe ?o" using le ge assms(7) unfolding safe_def by linarith
  have s2: "safe (total pg - ?o)" using le ge tot assms(7) unfolding safe_def by linarith
  note page = paginated_page_safe [where t = t and f = f and cont = cont, OF t f s1 s2]
  show ?case
  proof (cases "0 < total pg - ?o")
    case True
    have tr: "paginated self (t # ts) path offset limit options (Function f) completed =
        Request (page_opts self path offset limit options) # OnPage Null d pg # ?rest"
      using True cont by (simp add: page)
    with Cons.prems(2) have "OnComplete [] \<in> set ?rest" by simp
    moreover have "?o = 0 \<or> ?o + ?l \<le> T" using tot by (simp add: min_def)
    ultimately have "?o + sum_list (map returned (pages ?rest)) = T"
      using Cons.IH [of ?o ?l] Cons.prems(1) ge by simp
    then show ?thesis using tr by simp
  next
    case False
    have tr: "paginated self (t # ts) path offset limit options (Function f) completed =
        Request (page_opts self path offset limit options) # OnPage Null d pg #
        complete completed []"
      using False by (auto simp: page)
    then show ?thesis using False le tot by (simp add: pages_complete)
  qed
qed

text \<open>
  Claim C5, as the code has it. A session from offset 0, whose options carry no \<^verbatim>\<open>offset\<close>
  or \<^verbatim>\<open>limit\<close> key, runs until it is exhausted; every page reports the total \<open>T\<close>, at most
  \<open>2^53\<close>, and holds no negative number of items, no more than the limit requested and no
  more than the total it reports. Then the \<^verbatim>\<open>returned\<close> counts of the pages delivered add
  up to \<open>T\<close>.
\<close>

theorem returned_sums_to_total:
  assumes "unreserved options"
    and "\<forall>t \<in> set net. within_limit t \<and> within_total t \<and> fixed_total T t \<and> counts t"
    and "persistent f"
    and "OnComplete [] \<in> set (paginated self net path 0 limit options (Function f) completed)"
    and "T \<le> 2 ^ 53"
  shows "sum_list (map returned
           (pages (paginated self net path 0 limit options (Function f) completed))) = T"
  using pages_sum [OF assms(1,2,3,4) _ _ assms(5)] by simp

theorem returned_sums_to_total_witness:
  "sum_list (map returned
     (pages (paginated (Pivotal (Str ''token'')) [listing 300, listing 300, listing 300]
        ''projects/1/stories'' 0 128 None (Function (always (Bool True))) (Function ())))) = 300"
proof -
  let ?A = "paginated (Pivotal (Str ''token'')) [listing 300, listing 300, listing 300]
        ''projects/1/stories'' 0 128 None (Function (always (Bool True))) (Function ())"
  have h1: "unreserved None" by (rule unreserved_None)
  have h2: "\<forall>t \<in> set [listing 300, listing 300, listing 300].
      within_limit t \<and> within_total t \<and> fixed_total 300 t \<and> counts t"
    using listing_honest [of 300] by simp
  have h3: "persistent (always (Bool True))" by (simp add: always_persistent)
  have h4: "OnComplete [] \<in> set ?A" by (simp add: listing_session)
  have h5: "(300::int) \<le> 2 ^ 53" by simp
  from returned_sums_to_total [OF h1 h2 h3 h4 h5] show ?thesis .
qed

text \<open>
  Claim C5 as the spec words it (pages within the requested limit, total fixed) fails in two
  places. A first page of 128 items, the limit requested, out of a total of 5 exhausts the
  session, and the pages add up to 128. And with the total \<open>2^53 + 2\<close> and the limit \<open>2^53\<close>,
  pages of \<open>2^53\<close>, 1 and 2 items, each within the limit requested and within the total,
  exhaust the session although they add up to one more than the total: the second page
  does not advance the offset.
\<close>

theorem oversized_first_page_counterexample:
  "paginated (Pivotal (Str ''token'')) [fixed_page 128 5]
      ''projects/1/stories'' 0 128 None (Function (always (Bool True))) (Function ()) =
     [Request (page_opts (Pivotal (Str ''token'')) ''projects/1/stories'' 0 128 None),
      OnPage Null (Arr []) \<lparr>returned = 128, total = 5\<rparr>,
      OnComplete []] \<and>
   qs_num ''limit'' (page_opts (Pivotal (Str ''token'')) ''projects/1/stories'' 0 128 None) = Some 128 \<and>
   sum_list (map returned
     (pages (paginated (Pivotal (Str ''token'')) [fixed_page 128 5]
        ''projects/1/stories'' 0 128 None (Function (always (Bool True))) (Function ())))) \<noteq> 5 \<and>
   paginated (Pivotal (Str ''token''))
      [fixed_page 9007199254740992 9007199254740994, fixed_page 1 9007199254740994,
       fixed_page 2 9007199254740994]
      ''projects/1/stories'' 0 9007199254740992 None
      (Function (always (Bool True))) (Function ()) =
     [Request (page_opts (Pivotal (Str ''token'')) ''projects/1/stories'' 0 9007199254740992 None),
      OnPage Null (Arr []) \<lparr>returned = 9007199254740992, total = 9007199254740994\<rparr>,
      Request (page_opts (Pivotal (Str ''token'')) ''projects/1/stories'' 9007199254740992 2 None),
      OnPage Null (Arr []) \<lparr>returned = 1, total = 9007199254740994\<rparr>,
      Request (page_opts (Pivotal (Str ''token'')) ''projects/1/stories'' 9007199254740992 2 None),
      OnPage Null (Arr []) \<lparr>returned = 2, total = 9007199254740994\<rparr>,
      OnComplete []] \<and>
   9007199254740992 + 1 + 2 \<noteq> (9007199254740994 :: int)"
  by (simp add: paginated_page_safe [where cont = "Bool True"]
        paginated_page [where cont = "Bool True"] fixed_page_def always_def
        qs_num_page_opts unreserved_None complete_def safe_def js_add_beyond js_sub_safe)

end
